theory Spec2Isabelle
  imports Complex_Main "HOL-Library.Sublist" "HOL-Library.Code_Target_Nat"
begin

section \<open>Host language values\<close>

text \<open>
  The script is TypeScript run by the game's JavaScript engine. A string is modelled as a
  \<^typ>\<open>string\<close>, one \<^typ>\<open>char\<close> per code unit; block tags are written in the
  block's definition file in ASCII, and code units above 255 have no counterpart here.

  The numbers the component ever holds are the default \<open>1\<close> and results of
  \<open>Math.max(1, Math.floor(parseInt(...)))\<close>: integer-valued doubles, the two infinities
  and \<open>NaN\<close>. \<open>Fin i\<close> is the double whose value is the integer \<open>i\<close>; the two zeros
  of a double are both \<open>Fin 0\<close> (the code compares them with 1 only).
\<close>

datatype number = NaN | PosInf | NegInf | Fin int

datatype error = TypeError | Error string

text \<open>A value of type \<open>string | undefined\<close>, with the \<open>null\<close> the constructor tests for.\<close>

datatype js_identifier = Undefined | Null | Str string

text \<open>\<open>${v}\<close> inside a template literal.\<close>

fun template :: "js_identifier \<Rightarrow> string" where
  "template Undefined = ''undefined''"
| "template Null = ''null''"
| "template (Str s) = s"

text \<open>\<open>v == undefined\<close> and \<open>v == null\<close>: loose equality holds for both absent values.\<close>

fun loosely_absent :: "js_identifier \<Rightarrow> bool" where
  "loosely_absent Undefined = True"
| "loosely_absent Null = True"
| "loosely_absent (Str s) = False"

text \<open>\<open>a ?? b\<close>.\<close>

fun nullish_coalesce :: "js_identifier \<Rightarrow> js_identifier \<Rightarrow> js_identifier" where
  "nullish_coalesce Undefined d = d"
| "nullish_coalesce Null d = d"
| "nullish_coalesce (Str s) d = Str s"

subsection \<open>Math.floor and Math.max\<close>

fun Math_floor :: "number \<Rightarrow> number" where
  "Math_floor NaN = NaN"
| "Math_floor PosInf = PosInf"
| "Math_floor NegInf = NegInf"
| "Math_floor (Fin i) = Fin i"

fun Math_max :: "number \<Rightarrow> number \<Rightarrow> number" where
  "Math_max NaN b = NaN"
| "Math_max a NaN = NaN"
| "Math_max PosInf b = PosInf"
| "Math_max a PosInf = PosInf"
| "Math_max NegInf b = b"
| "Math_max a NegInf = a"
| "Math_max (Fin i) (Fin j) = Fin (max i j)"

subsection \<open>Rounding an integer to a double\<close>

fun bit_length :: "nat \<Rightarrow> nat" where
  "bit_length n = (if n = 0 then 0 else Suc (bit_length (n div 2)))"

declare bit_length.simps [simp del]

text \<open>
  The double nearest to an integer, ties to even: integers below \<open>2^53\<close> in magnitude
  are doubles themselves; a larger one keeps its 53 leading bits, and overflows to an
  infinity from \<open>2^1024\<close> on.
\<close>

definition round_double :: "int \<Rightarrow> number" where
  "round_double i =
     (let n = nat \<bar>i\<bar> in
      if n < 2 ^ 53 then Fin i
      else
        let e = bit_length n - 53;
            q = n div 2 ^ e;
            r = n mod 2 ^ e;
            h = 2 ^ (e - 1);
            q' = (if h < r \<or> (r = h \<and> odd q) then q + 1 else q);
            v = q' * 2 ^ e
        in if 2 ^ 1024 \<le> v then (if i < 0 then NegInf else PosInf)
           else Fin (if i < 0 then - int v else int v))"

subsection \<open>parseInt\<close>

text \<open>The white space and line terminator code units below 256.\<close>

definition isWhiteSpace :: "char \<Rightarrow> bool" where
  "isWhiteSpace c = ((of_char c :: nat) \<in> {9, 10, 11, 12, 13, 32, 160})"

text \<open>The value of a digit \<open>0-9\<close>, \<open>a-z\<close>, \<open>A-Z\<close>.\<close>

definition digitValue :: "char \<Rightarrow> nat option" where
  "digitValue c =
     (let k = (of_char c :: nat) in
      if 48 \<le> k \<and> k \<le> 57 then Some (k - 48)
      else if 97 \<le> k \<and> k \<le> 122 then Some (k - 87)
      else if 65 \<le> k \<and> k \<le> 90 then Some (k - 55)
      else None)"

definition radixDigit :: "nat \<Rightarrow> char \<Rightarrow> bool" where
  "radixDigit R c = (case digitValue c of None \<Rightarrow> False | Some d \<Rightarrow> d < R)"

definition mathInt :: "nat \<Rightarrow> string \<Rightarrow> nat" where
  "mathInt R Z = foldl (\<lambda>a c. a * R + (case digitValue c of None \<Rightarrow> 0 | Some d \<Rightarrow> d)) 0 Z"

text \<open>
  \<open>parseInt(inputString)\<close> with no radix, step by step as the language standard has it:
  leading white space is dropped, a sign is read, a \<open>0x\<close> or \<open>0X\<close> prefix selects
  radix 16 (otherwise 10), the longest run of digits of that radix is taken; no digit gives
  \<open>NaN\<close>, otherwise the digits' value, rounded to a double. (For more than 20 decimal
  digits the standard lets an engine round differently; \<open>round_double\<close> is the exact
  rounding.)
\<close>

definition parseInt :: "string \<Rightarrow> number" where
  "parseInt inputString =
     (let S = dropWhile isWhiteSpace inputString;
          sign = (case S of c # _ \<Rightarrow> (if c = CHR ''-'' then - 1 else 1) | [] \<Rightarrow> (1::int));
          S1 = (case S of c # cs \<Rightarrow> (if c = CHR ''+'' \<or> c = CHR ''-'' then cs else S) | [] \<Rightarrow> S);
          hex = (take 2 S1 = ''0x'' \<or> take 2 S1 = ''0X'');
          R = (if hex then 16 else 10);
          S2 = (if hex then drop 2 S1 else S1);
          Z = takeWhile (radixDigit R) S2
      in if Z = [] then NaN else round_double (sign * int (mathInt R Z)))"

subsection \<open>String.prototype.includes and String.prototype.replace\<close>

text \<open>\<open>str.includes(search)\<close>: \<open>search\<close> occurs in \<open>str\<close> as a contiguous run.\<close>

fun String_includes :: "string \<Rightarrow> string \<Rightarrow> bool" where
  "String_includes [] search = (search = [])"
| "String_includes (c # cs) search = (prefix search (c # cs) \<or> String_includes cs search)"

text \<open>
  \<open>str.replace(pattern, replacement)\<close> with a string pattern: the first occurrence of the
  pattern is replaced, a string without the pattern is returned as it is. The one call in
  the source passes the empty replacement, in which no \<open>$\<close> pattern can occur.
\<close>

fun String_replace :: "string \<Rightarrow> string \<Rightarrow> string \<Rightarrow> string" where
  "String_replace [] pattern replacement = (if pattern = [] then replacement else [])"
| "String_replace (c # cs) pattern replacement =
     (if prefix pattern (c # cs) then replacement @ drop (length pattern) (c # cs)
      else c # String_replace cs pattern replacement)"

section \<open>DamageEmitterComponent\<close>

text \<open>
  The fields of the abstract class; \<open>ident\<close> is the field \<open>identifier\<close>.
\<close>

record DamageEmitterComponent =
  ident :: js_identifier
  triggered :: bool
  damage :: number
  continuous :: bool

text \<open>
  The constructor. The field initialisers run first, so \<open>this.identifier\<close> is
  \<open>undefined\<close> when the test is made; \<open>cname\<close> is \<open>this.constructor.name\<close>.
\<close>

definition DamageEmitterComponent_constructor ::
  "string \<Rightarrow> js_identifier \<Rightarrow> error + DamageEmitterComponent" where
  "DamageEmitterComponent_constructor cname identifier_arg =
     (let this = \<lparr>ident = Undefined, triggered = False, damage = Fin 1, continuous = False\<rparr>
      in if (ident this = Undefined \<and> loosely_absent identifier_arg)
            \<or> (ident this = Null \<and> loosely_absent identifier_arg)
         then Inl (Error (''The identifier property must be defined by '' @ cname @ ''.''))
         else Inr (this\<lparr>ident := nullish_coalesce identifier_arg (ident this),
                        damage := Math_max (Fin 1) (Math_floor (damage this))\<rparr>))"

text \<open>
  \<open>getParamValue\<close>: the first tag that includes the parameter's tag, with
  \<open>paramTag:\<close> removed. Reading element 0 of an empty array gives \<open>undefined\<close>, and
  calling \<open>.replace\<close> on it throws a \<open>TypeError\<close>.
\<close>

definition getParamValue :: "string \<Rightarrow> string list \<Rightarrow> error + string" where
  "getParamValue paramTag tags =
     (case filter (\<lambda>str. String_includes str paramTag) tags of
        [] \<Rightarrow> Inl TypeError
      | str # _ \<Rightarrow> Inr (String_replace str (paramTag @ '':'') ''''))"

text \<open>\<open>hasParam\<close>: \<open>tags.includes(paramTag)\<close>, an element equal to the tag.\<close>

definition hasParam :: "string \<Rightarrow> string list \<Rightarrow> bool" where
  "hasParam paramTag tags = (paramTag \<in> set tags)"

definition getIdentifier :: "string \<Rightarrow> 'a DamageEmitterComponent_scheme \<Rightarrow> error + js_identifier" where
  "getIdentifier cname this =
     (if ident this = Undefined
      then Inl (Error (''The identifier property must be defined by '' @ cname @ ''.''))
      else Inr (ident this))"

record parameter_tags =
  damage_tag :: string
  continuous_tag :: string

definition parameterTags :: "'a DamageEmitterComponent_scheme \<Rightarrow> parameter_tags" where
  "parameterTags this =
     \<lparr>damage_tag = template (ident this) @ ''_damage'',
      continuous_tag = template (ident this) @ ''_continuous''\<rparr>"

section \<open>DamageOnStepComponent\<close>

record DamageOnStepComponent = DamageEmitterComponent +
  init :: bool

text \<open>\<open>super('dm:damage_on_step')\<close>, then the field initialiser of \<open>init\<close>.\<close>

definition new_DamageOnStepComponent :: "error + DamageOnStepComponent" where
  "new_DamageOnStepComponent =
     (case DamageEmitterComponent_constructor ''DamageOnStepComponent'' (Str ''dm:damage_on_step'') of
        Inl e \<Rightarrow> Inl e
      | Inr this \<Rightarrow>
          Inr \<lparr>ident = ident this, triggered = triggered this, damage = damage this,
               continuous = continuous this, init = False\<rparr>)"

subsection \<open>The host: blocks, entities, the registry\<close>

text \<open>
  What the callbacks see of the game. A block has its tags, its permutation (the values of
  its states), a location and a dimension; entities are opaque handles. The host answers
  \<open>getEntities\<close> queries, and \<open>applyDamage\<close> calls are recorded in the order they are
  made, with the amount passed. The host is trusted to accept every call the script makes.
\<close>

type_synonym Vector3 = "rat \<times> rat \<times> rat"

type_synonym entity = nat

type_synonym block_id = nat

datatype state_value = SBool bool | SNum int | SStr string

type_synonym BlockPermutation = "string \<rightharpoonup> state_value"

record EntityQueryOptions =
  location :: Vector3
  volume :: Vector3

record Block =
  tags :: "string list"
  permutation :: BlockPermutation
  block_location :: Vector3
  dimension :: nat

text \<open>
  The module creates one \<open>DamageOnStepComponent\<close> (the array \<open>DamageEmitters\<close>) and
  \<open>main.ts\<close> registers that object under its identifier; its three handlers are arrow
  functions bound to it, and the host calls them for every block whose definition lists the
  component, passing the block in the event. The script's memory therefore holds this one
  component object, the field \<open>emitter\<close>, whichever block a callback is for.
\<close>

record world =
  emitter :: DamageOnStepComponent
  blocks :: "block_id \<Rightarrow> Block"
  getEntities :: "nat \<Rightarrow> EntityQueryOptions \<Rightarrow> entity list"
  applied :: "(entity \<times> number) list"

definition DamageEmitters :: "error + DamageOnStepComponent list" where
  "DamageEmitters = (case new_DamageOnStepComponent of Inl e \<Rightarrow> Inl e | Inr c \<Rightarrow> Inr [c])"

text \<open>
  \<open>main.ts\<close>: each emitter is registered under \<open>emitter.getIdentifier\<close>; the result is
  the registry, identifier and component object in the order of registration.
\<close>

fun registerAll ::
  "DamageOnStepComponent list \<Rightarrow> (js_identifier \<times> DamageOnStepComponent) list
     \<Rightarrow> error + (js_identifier \<times> DamageOnStepComponent) list" where
  "registerAll [] registry = Inr registry"
| "registerAll (c # cs) registry =
     (case getIdentifier ''DamageOnStepComponent'' c of
        Inl e \<Rightarrow> Inl e
      | Inr i \<Rightarrow> registerAll cs (registry @ [(i, c)]))"

definition worldInitialize :: "error + (js_identifier \<times> DamageOnStepComponent) list" where
  "worldInitialize = (case DamageEmitters of Inl e \<Rightarrow> Inl e | Inr cs \<Rightarrow> registerAll cs [])"

definition withState :: "BlockPermutation \<Rightarrow> string \<Rightarrow> state_value \<Rightarrow> BlockPermutation" where
  "withState p name v = p(name \<mapsto> v)"

definition setPermutation :: "block_id \<Rightarrow> BlockPermutation \<Rightarrow> world \<Rightarrow> world" where
  "setPermutation b p w = w\<lparr>blocks := (blocks w)(b := (blocks w b)\<lparr>permutation := p\<rparr>)\<rparr>"

definition applyDamage :: "entity \<Rightarrow> number \<Rightarrow> world \<Rightarrow> world" where
  "applyDamage e amount w = w\<lparr>applied := applied w @ [(e, amount)]\<rparr>"

text \<open>The name of the persisted state, \<open>${this.identifier}_triggered\<close>.\<close>

definition triggered_state :: "world \<Rightarrow> string" where
  "triggered_state w = template (ident (emitter w)) @ ''_triggered''"

text \<open>
  The query both handlers make: from the block's location moved by a half in \<open>x\<close> and
  \<open>z\<close>, a volume of a half, one and a half.
\<close>

definition cell_query :: "Block \<Rightarrow> EntityQueryOptions" where
  "cell_query block =
     (case block_location block of
        (bx, by, bz) \<Rightarrow> \<lparr>location = (bx + 1 / 2, by, bz + 1 / 2), volume = (1 / 2, 1, 1 / 2)\<rparr>)"

text \<open>\<open>entities.forEach(entity => entity.applyDamage(this.damage))\<close>.\<close>

definition damage_each :: "entity list \<Rightarrow> world \<Rightarrow> world" where
  "damage_each entities w = fold (\<lambda>e w'. applyDamage e (damage (emitter w')) w') entities w"

subsection \<open>The handlers\<close>

definition onStepOn :: "block_id \<Rightarrow> world \<Rightarrow> world" where
  "onStepOn b w =
     (let PERMUTATION = permutation (blocks w b);
          w1 = w\<lparr>emitter := (emitter w)\<lparr>triggered := True\<rparr>\<rparr>
      in setPermutation b
           (withState PERMUTATION (triggered_state w1) (SBool (triggered (emitter w1)))) w1)"

definition onStepOff :: "block_id \<Rightarrow> world \<Rightarrow> world" where
  "onStepOff b w =
     (let block = blocks w b;
          PERMUTATION = permutation block;
          entities = getEntities w (dimension block) (cell_query block);
          stillHasEntity = (0 < length entities);
          w1 = damage_each entities w
      in if \<not> stillHasEntity
         then (let w2 = w1\<lparr>emitter := (emitter w1)\<lparr>triggered := False\<rparr>\<rparr>
               in setPermutation b
                    (withState PERMUTATION (triggered_state w2) (SBool (triggered (emitter w2)))) w2)
         else w1)"

text \<open>
  \<open>onTick\<close>. In the first branch the statement \<open>PERMUTATION.withState(..., false)\<close>
  builds a permutation and drops it (\<open>unused\<close>). \<open>getParamValue\<close> either throws or
  returns a string, so the right operand of \<open>?? this.damage\<close> is never taken and
  \<open>damage.toString()\<close> is the string itself; \<open>hasParam\<close> returns a boolean, so
  \<open>?? this.continuous\<close> is never taken either. The throw happens before any field is
  assigned.
\<close>

definition onTick :: "block_id \<Rightarrow> world \<Rightarrow> error + world" where
  "onTick b w =
     (if \<not> init (emitter w) then
        (let block = blocks w b;
             PERMUTATION = permutation block;
             TAGS = tags block;
             unused = withState PERMUTATION (triggered_state w) (SBool False)
         in case getParamValue (damage_tag (parameterTags (emitter w))) TAGS of
              Inl e \<Rightarrow> Inl e
            | Inr v \<Rightarrow>
                Inr (w\<lparr>emitter := (emitter w)
                      \<lparr>damage := Math_max (Fin 1) (Math_floor (parseInt v)),
                       continuous := hasParam (continuous_tag (parameterTags (emitter w))) TAGS,
                       init := True\<rparr>\<rparr>))
      else if triggered (emitter w) then
        (let block = blocks w b;
             entities = getEntities w (dimension block) (cell_query block)
         in if length entities = 0
            then (let w1 = w\<lparr>emitter := (emitter w)\<lparr>triggered := False\<rparr>\<rparr>
                  in Inr (setPermutation b
                       (withState (permutation (blocks w1 b)) (triggered_state w1)
                          (SBool (triggered (emitter w1)))) w1))
            else Inr (damage_each entities w))
      else Inr w)"

subsection \<open>Delivery of callbacks\<close>

text \<open>
  The host calls a handler with the block of the event. An exception leaving a handler is
  caught and reported by the host, and the game goes on; the only throw in a handler comes
  before its first assignment, so the world is then as it was.
\<close>

datatype event = StepOn block_id | StepOff block_id | Tick block_id

fun event_block :: "event \<Rightarrow> block_id" where
  "event_block (StepOn b) = b"
| "event_block (StepOff b) = b"
| "event_block (Tick b) = b"

fun handle :: "event \<Rightarrow> world \<Rightarrow> error + world" where
  "handle (StepOn b) w = Inr (onStepOn b w)"
| "handle (StepOff b) w = Inr (onStepOff b w)"
| "handle (Tick b) w = onTick b w"

definition deliver :: "event \<Rightarrow> world \<Rightarrow> world" where
  "deliver ev w = (case handle ev w of Inl e \<Rightarrow> w | Inr w' \<Rightarrow> w')"

section \<open>Decimal numerals\<close>

text \<open>
  What a damage tag's value denotes when it is written as a decimal numeral: digits
  \<open>ds\<close>, optionally followed by a point and digits \<open>fs\<close>. \<open>decimal_value\<close> is the
  rational number the numeral stands for; it is defined from the numeral, not from
  \<open>parseInt\<close>.
\<close>

definition isDecimalDigit :: "char \<Rightarrow> bool" where
  "isDecimalDigit c = (48 \<le> (of_char c :: nat) \<and> (of_char c :: nat) \<le> 57)"

definition decimal_nat :: "string \<Rightarrow> nat" where
  "decimal_nat ds = foldl (\<lambda>a c. 10 * a + (of_char c - 48)) 0 ds"

definition decimal_value :: "string \<Rightarrow> string \<Rightarrow> rat" where
  "decimal_value ds fs = of_nat (decimal_nat ds) + of_nat (decimal_nat fs) / 10 ^ length fs"

definition decimal_text :: "string \<Rightarrow> string \<Rightarrow> string" where
  "decimal_text ds fs = (if fs = [] then ds else ds @ ''.'' @ fs)"

text \<open>
  Numerals with an exponent, \<open>1e3\<close> or \<open>2.5e1\<close>: the decimal numeral, the letter
  \<open>e\<close> and the digits \<open>es\<close> of the exponent, standing for the decimal's value times
  that power of ten.
\<close>

definition exponent_text :: "string \<Rightarrow> string \<Rightarrow> string \<Rightarrow> string" where
  "exponent_text ds fs es = decimal_text ds fs @ ''e'' @ es"

definition exponent_value :: "string \<Rightarrow> string \<Rightarrow> string \<Rightarrow> rat" where
  "exponent_value ds fs es = decimal_value ds fs * 10 ^ decimal_nat es"

section \<open>Example worlds\<close>

text \<open>
  The component as the module creates it, and a world of blocks that all carry the tags
  \<open>ts\<close>, with the persisted state at its default \<open>false\<close>; block \<open>n\<close> stands at
  \<open>(n, 64, 0)\<close>. The entities \<open>es0\<close> stand in the cell of block 0 and \<open>es1\<close> in the
  cell of block 1.
\<close>

definition initial_emitter :: DamageOnStepComponent where
  "initial_emitter =
     \<lparr>ident = Str ''dm:damage_on_step'', triggered = False, damage = Fin 1,
      continuous = False, init = False\<rparr>"

definition example_block :: "string list \<Rightarrow> block_id \<Rightarrow> Block" where
  "example_block ts n =
     \<lparr>tags = ts, permutation = [''dm:damage_on_step_triggered'' \<mapsto> SBool False],
      block_location = (of_nat n, 64, 0), dimension = 0\<rparr>"

definition example_world :: "string list \<Rightarrow> entity list \<Rightarrow> entity list \<Rightarrow> world" where
  "example_world ts es0 es1 =
     \<lparr>emitter = initial_emitter,
      blocks = example_block ts,
      getEntities = (\<lambda>d q. if location q = (1 / 2, 64, 1 / 2) then es0
                            else if location q = (3 / 2, 64, 1 / 2) then es1 else []),
      applied = []\<rparr>"

text \<open>
  The world of blocks tagged with a damage of 3 once the component is initialised, the
  triggered flag being \<open>t\<close>; with \<open>t\<close> false it is the example world after its
  first tick (\<open>first_tick_of_example\<close> below).
\<close>

definition running_world :: "bool \<Rightarrow> entity list \<Rightarrow> entity list \<Rightarrow> world" where
  "running_world t es0 es1 =
     (example_world [''dm:damage_on_step_damage:3''] es0 es1)
       \<lparr>emitter := initial_emitter\<lparr>triggered := t, damage := Fin 3, init := True\<rparr>\<rparr>"

section \<open>The region scanned\<close>

text \<open>
  The block's 1x1x1 cell in the specification's words: the unit cube that starts at the
  block's location. It is defined from those words, to be compared with the query the
  handlers make (\<open>cell_query\<close>).
\<close>

definition spec_unit_cell :: "Block \<Rightarrow> EntityQueryOptions" where
  "spec_unit_cell block = \<lparr>location = block_location block, volume = (1, 1, 1)\<rparr>"

text \<open>
  A host in which every entity stands at a position in a dimension, and a query is
  answered with the entities of that dimension whose position lies in the box that starts
  at the query's location and extends by its volume.
\<close>

definition in_box :: "Vector3 \<Rightarrow> EntityQueryOptions \<Rightarrow> bool" where
  "in_box p q =
     (case p of (px, py, pz) \<Rightarrow>
      case location q of (lx, ly, lz) \<Rightarrow>
      case volume q of (vx, vy, vz) \<Rightarrow>
        lx \<le> px \<and> px \<le> lx + vx \<and> ly \<le> py \<and> py \<le> ly + vy \<and> lz \<le> pz \<and> pz \<le> lz + vz)"

definition box_host :: "(entity \<times> nat \<times> Vector3) list \<Rightarrow> nat \<Rightarrow> EntityQueryOptions \<Rightarrow> entity list" where
  "box_host placed d q = map fst (filter (\<lambda>(e, d', p). d' = d \<and> in_box p q) placed)"

text \<open>
  Two blocks tagged with a damage of 3 whose persisted state is true: block 0 at
  \<open>(0, 64, 0)\<close> in dimension 0, every other block at \<open>(3, 70, -5)\<close> in dimension 1; the
  component is initialised and triggered, and the entities stand where \<open>placed\<close> says.
\<close>

definition placed_block :: "block_id \<Rightarrow> Block" where
  "placed_block n =
     \<lparr>tags = [''dm:damage_on_step_damage:3''],
      permutation = [''dm:damage_on_step_triggered'' \<mapsto> SBool True],
      block_location = (if n = 0 then (0, 64, 0) else (3, 70, - 5)),
      dimension = (if n = 0 then 0 else 1)\<rparr>"

definition placed_world :: "(entity \<times> nat \<times> Vector3) list \<Rightarrow> world" where
  "placed_world placed =
     \<lparr>emitter = initial_emitter\<lparr>triggered := True, damage := Fin 3, init := True\<rparr>,
      blocks = placed_block,
      getEntities = box_host placed,
      applied = []\<rparr>"

text \<open>
  Around block 1 (the queried box is \<open>[7/2, 4] x [70, 71] x [-9/2, -4]\<close> in dimension 1):
  entities 4 and 9 stand inside it, 9 on its far corner; 5 stands in the block's unit cube
  but left of the box; 6 stands at 4's position in dimension 0; 7 stands above the box.
\<close>

definition around_block_1 :: "(entity \<times> nat \<times> Vector3) list" where
  "around_block_1 =
     [(5, 1, (13 / 4, 70, - 17 / 4)),
      (4, 1, (15 / 4, 70, - 17 / 4)),
      (6, 0, (15 / 4, 70, - 17 / 4)),
      (7, 1, (15 / 4, 72, - 17 / 4)),
      (9, 1, (4, 71, - 4))]"

section \<open>Auxiliary facts\<close>

lemma damage_each_eq:
  "damage_each es w = w\<lparr>applied := applied w @ map (\<lambda>e. (e, damage (emitter w))) es\<rparr>"
  unfolding damage_each_def
  by (induction es arbitrary: w) (simp_all add: applyDamage_def)

lemma new_DamageOnStepComponent_eq: "new_DamageOnStepComponent = Inr initial_emitter"
  by (simp add: new_DamageOnStepComponent_def DamageEmitterComponent_constructor_def
      initial_emitter_def)

lemma worldInitialize_eq: "worldInitialize = Inr [(Str ''dm:damage_on_step'', initial_emitter)]"
  by (simp add: worldInitialize_def DamageEmitters_def new_DamageOnStepComponent_eq
      getIdentifier_def initial_emitter_def)

lemma String_includes_prefix: "t \<noteq> [] \<Longrightarrow> prefix k t \<Longrightarrow> String_includes t k"
  by (cases t) simp_all

lemma String_replace_prefix: "String_replace (p @ v) p [] = v"
proof (cases "p @ v")
  case Nil
  then show ?thesis by simp
next
  case (Cons c cs)
  have "prefix p (p @ v)" by simp
  then have "String_replace (c # cs) p [] = drop (length p) (c # cs)"
    unfolding Cons by simp
  also have "\<dots> = v"
    unfolding Cons [symmetric] by simp
  finally show ?thesis
    unfolding Cons .
qed

lemma getParamValue_first_match:
  assumes "\<forall>t\<in>set pre. \<not> String_includes t k"
  shows "getParamValue k (pre @ (k @ '':'' @ v) # post) = Inr v"
proof -
  have inc: "String_includes (k @ '':'' @ v) k"
    by (rule String_includes_prefix) simp_all
  have "filter (\<lambda>str. String_includes str k) pre = []"
    using assms by (simp add: filter_empty_conv)
  then have "filter (\<lambda>str. String_includes str k) (pre @ (k @ '':'' @ v) # post)
      = (k @ '':'' @ v) # filter (\<lambda>str. String_includes str k) post"
    using inc by simp
  moreover have "String_replace (k @ '':'' @ v) (k @ '':'') [] = v"
    using String_replace_prefix [of "k @ '':''" v] by simp
  ultimately show ?thesis
    by (simp add: getParamValue_def)
qed

lemma digit_radixDigit: "isDecimalDigit c \<Longrightarrow> radixDigit 10 c"
  by (auto simp: isDecimalDigit_def radixDigit_def digitValue_def)

lemma digit_not_space: "isDecimalDigit c \<Longrightarrow> \<not> isWhiteSpace c"
  by (auto simp: isDecimalDigit_def isWhiteSpace_def)

lemma digit_not_sign: "isDecimalDigit c \<Longrightarrow> c \<noteq> CHR ''-'' \<and> c \<noteq> CHR ''+''"
  by (auto simp: isDecimalDigit_def)

lemma digit_not_x: "isDecimalDigit c \<Longrightarrow> c \<noteq> CHR ''x'' \<and> c \<noteq> CHR ''X''"
  by (auto simp: isDecimalDigit_def)

lemma dot_not_radixDigit: "\<not> radixDigit 10 CHR ''.''"
  by (simp add: radixDigit_def digitValue_def)

lemma mathInt_decimal: "list_all isDecimalDigit ds \<Longrightarrow> mathInt 10 ds = decimal_nat ds"
proof (induction ds rule: rev_induct)
  case Nil
  show ?case by (simp add: mathInt_def decimal_nat_def)
next
  case (snoc c ds)
  then have "isDecimalDigit c" and "mathInt 10 ds = decimal_nat ds" by simp_all
  then show ?case
    by (auto simp: mathInt_def decimal_nat_def isDecimalDigit_def digitValue_def)
qed

lemma decimal_nat_bound: "list_all isDecimalDigit fs \<Longrightarrow> decimal_nat fs < 10 ^ length fs"
proof (induction fs rule: rev_induct)
  case Nil
  show ?case by (simp add: decimal_nat_def)
next
  case (snoc c fs)
  then have c: "isDecimalDigit c" and ih: "decimal_nat fs < 10 ^ length fs" by simp_all
  have "decimal_nat (fs @ [c]) = 10 * decimal_nat fs + (of_char c - 48)"
    by (simp add: decimal_nat_def)
  moreover have "(of_char c :: nat) - 48 \<le> 9"
    using c unfolding isDecimalDigit_def by linarith
  ultimately show ?case using ih by simp
qed

lemma floor_decimal_value:
  assumes "list_all isDecimalDigit fs"
  shows "\<lfloor>decimal_value ds fs\<rfloor> = int (decimal_nat ds)"
proof -
  have "decimal_nat fs < 10 ^ length fs"
    using assms by (rule decimal_nat_bound)
  then have "(of_nat (decimal_nat fs) :: rat) < of_nat (10 ^ length fs)"
    by (simp only: of_nat_less_iff)
  then have lt: "(of_nat (decimal_nat fs) :: rat) / 10 ^ length fs < 1"
    by simp
  have ge: "0 \<le> (of_nat (decimal_nat fs) :: rat) / 10 ^ length fs"
    by simp
  show ?thesis
    unfolding decimal_value_def
    by (rule floor_unique) (use lt ge in simp_all)
qed

lemma parseInt_decimal_text:
  assumes "ds \<noteq> []" and "list_all isDecimalDigit ds" and "list_all isDecimalDigit fs"
  shows "parseInt (decimal_text ds fs) = round_double (int (decimal_nat ds))"
proof -
  define rest where "rest = (if fs = [] then [] else ''.'' @ fs)"
  have shape: "decimal_text ds fs = ds @ rest"
    by (simp add: decimal_text_def rest_def)
  obtain c cs where ds: "ds = c # cs"
    using assms(1) by (cases ds) auto
  have c: "isDecimalDigit c" and cs: "list_all isDecimalDigit cs"
    using assms(2) ds by simp_all
  have S: "dropWhile isWhiteSpace (ds @ rest) = ds @ rest"
    using digit_not_space [OF c] ds by simp
  have nohex: "take 2 (ds @ rest) \<noteq> ''0x''" "take 2 (ds @ rest) \<noteq> ''0X''"
    using cs digit_not_x ds by (cases cs; auto simp: rest_def)+
  have run: "takeWhile (radixDigit 10) (ds @ rest) = ds"
  proof -
    have "\<forall>d\<in>set ds. radixDigit 10 d"
      using assms(2) digit_radixDigit by (auto simp: list_all_iff)
    moreover have "takeWhile (radixDigit 10) rest = []"
      using dot_not_radixDigit by (simp add: rest_def)
    ultimately show ?thesis
      by (simp add: takeWhile_append2)
  qed
  have sign: "(case ds @ rest of [] \<Rightarrow> (1::int) | d # _ \<Rightarrow> if d = CHR ''-'' then - 1 else 1) = 1"
    using digit_not_sign [OF c] by (simp add: ds)
  have S1: "(case ds @ rest of [] \<Rightarrow> ds @ rest
             | d # r \<Rightarrow> if d = CHR ''+'' \<or> d = CHR ''-'' then r else ds @ rest) = ds @ rest"
    using digit_not_sign [OF c] by (simp add: ds)
  have hex: "(take 2 (ds @ rest) = ''0x'' \<or> take 2 (ds @ rest) = ''0X'') = False"
    using nohex by simp
  have "parseInt (ds @ rest) = round_double (1 * int (mathInt 10 ds))"
    unfolding parseInt_def Let_def S sign S1 hex if_False run
    using assms(1) by simp
  then show ?thesis
    unfolding shape using mathInt_decimal [OF assms(2)] by simp
qed

lemma tick_idle:
  assumes "\<not> triggered (emitter w)"
  shows "\<not> triggered (emitter (deliver (Tick b) w))"
    and "blocks (deliver (Tick b) w) = blocks w"
    and "applied (deliver (Tick b) w) = applied w"
  using assms by (simp_all add: deliver_def onTick_def Let_def split: sum.splits)

lemma tick_idempotent:
  assumes "\<not> triggered (emitter w)"
  shows "deliver (Tick b) (deliver (Tick b) w) = deliver (Tick b) w"
proof (cases "init (emitter w)")
  case True
  with assms have "deliver (Tick b) w = w"
    by (simp add: deliver_def onTick_def)
  then show ?thesis by simp
next
  case False
  show ?thesis
  proof (cases "getParamValue (damage_tag (parameterTags (emitter w))) (tags (blocks w b))")
    case (Inl e)
    with False have "deliver (Tick b) w = w"
      by (simp add: deliver_def onTick_def Let_def)
    then show ?thesis by simp
  next
    case (Inr v)
    with False assms show ?thesis
      by (simp add: deliver_def onTick_def Let_def)
  qed
qed

lemma first_tick_of_example:
  "deliver (Tick b) (example_world [''dm:damage_on_step_damage:3''] es0 es1)
     = running_world False es0 es1"
proof -
  have "getParamValue ''dm:damage_on_step_damage'' [''dm:damage_on_step_damage:3''] = Inr ''3''"
    using getParamValue_first_match [of "[]" "''dm:damage_on_step_damage''" "''3''" "[]"]
    by simp
  moreover have "parseInt ''3'' = Fin 3"
    by (simp add: parseInt_def isWhiteSpace_def radixDigit_def digitValue_def mathInt_def
        round_double_def)
  ultimately show ?thesis
    by (simp add: deliver_def onTick_def Let_def running_world_def example_world_def
        example_block_def initial_emitter_def parameterTags_def hasParam_def)
qed

lemma initialised_stays:
  assumes "init (emitter w)"
  shows "init (emitter (deliver ev w))"
    and "damage (emitter (deliver ev w)) = damage (emitter w)"
    and "continuous (emitter (deliver ev w)) = continuous (emitter w)"
  using assms
  by (cases ev; simp add: deliver_def onTick_def onStepOn_def onStepOff_def Let_def
      setPermutation_def damage_each_eq)+

lemma initialised_stays_fold:
  assumes "init (emitter w)"
  shows "init (emitter (fold deliver evs w))
     \<and> damage (emitter (fold deliver evs w)) = damage (emitter w)
     \<and> continuous (emitter (fold deliver evs w)) = continuous (emitter w)"
  using assms
proof (induction evs arbitrary: w)
  case Nil
  then show ?case by simp
next
  case (Cons ev evs)
  note step = initialised_stays [OF Cons.prems, of ev]
  from Cons.IH [OF step(1)] step(2,3) show ?case by simp
qed

lemma parseInt_3: "parseInt ''3'' = Fin 3"
  by (simp add: parseInt_def isWhiteSpace_def radixDigit_def digitValue_def mathInt_def
      round_double_def)

lemma query_block_0:
  "getEntities (placed_world placed) (dimension (blocks (placed_world placed) 0))
      \<lparr>location = (0 + 1 / 2, 64, 0 + 1 / 2), volume = (1 / 2, 1, 1 / 2)\<rparr>
     = box_host placed 0 \<lparr>location = (1 / 2, 64, 1 / 2), volume = (1 / 2, 1, 1 / 2)\<rparr>"
  by (simp add: placed_world_def placed_block_def)

lemma query_block_1:
  "getEntities (placed_world placed) (dimension (blocks (placed_world placed) 1))
      \<lparr>location = (3 + 1 / 2, 70, - 5 + 1 / 2), volume = (1 / 2, 1, 1 / 2)\<rparr>
     = box_host placed 1 \<lparr>location = (7 / 2, 70, - 9 / 2), volume = (1 / 2, 1, 1 / 2)\<rparr>"
  by (simp add: placed_world_def placed_block_def)

lemma found_around_block_1:
  "box_host around_block_1 1 \<lparr>location = (7 / 2, 70, - 9 / 2), volume = (1 / 2, 1, 1 / 2)\<rparr>
     = [4, 9]"
  by (simp add: box_host_def around_block_1_def in_box_def)

lemma found_around_block_0:
  "box_host around_block_1 0 \<lparr>location = (1 / 2, 64, 1 / 2), volume = (1 / 2, 1, 1 / 2)\<rparr> = []"
  by (simp add: box_host_def around_block_1_def in_box_def)

lemma placed_world_fields:
  "init (emitter (placed_world placed))"
  "triggered (emitter (placed_world placed))"
  "damage (emitter (placed_world placed)) = Fin 3"
  "applied (placed_world placed) = []"
  "triggered_state (placed_world placed) = ''dm:damage_on_step_triggered''"
  "block_location (blocks (placed_world placed) 0) = (0, 64, 0)"
  "block_location (blocks (placed_world placed) 1) = (3, 70, - 5)"
  "blocks (placed_world placed) = placed_block"
  by (simp_all add: placed_world_def placed_block_def initial_emitter_def triggered_state_def)

section \<open>The claims\<close>

text \<open>
  C6. For every step-on callback, whatever the flag was before, the handler sets the
  in-memory triggered flag to true and, within the same callback, writes the value true
  into the block's persisted state.
\<close>

theorem onStepOn_sets_and_persists:
  "triggered (emitter (onStepOn b w))
   \<and> permutation (blocks (onStepOn b w) b) (triggered_state w) = Some (SBool True)"
  by (simp add: onStepOn_def setPermutation_def withState_def triggered_state_def)

theorem onStepOn_sets_and_persists_witness:
  "triggered (emitter (onStepOn 0 (example_world [''dm:damage_on_step_damage:3''] [4] [])))
   \<and> permutation (blocks (onStepOn 0 (example_world [''dm:damage_on_step_damage:3''] [4] [])) 0)
        ''dm:damage_on_step_triggered'' = Some (SBool True)"
  using onStepOn_sets_and_persists [of 0 "example_world [''dm:damage_on_step_damage:3''] [4] []"]
  by (simp add: triggered_state_def example_world_def initial_emitter_def)

text \<open>
  C7, as the code has it. For every tick callback received while the component is
  initialised and triggered, the handler asks the host for the entities of the block's
  dimension in the region that starts at the block's location moved by a half in \<open>x\<close>
  and \<open>z\<close> and has the volume 0.5 x 1 x 0.5, not the block's 1x1x1 cell. If entities are
  found, each of them receives the configured damage in full and the flag stays true; if
  none is found, the flag is set to false and false is written to the block's persisted
  state.
\<close>

theorem onTick_while_triggered:
  assumes "init (emitter w)" and "triggered (emitter w)"
    and "block_location (blocks w b) = (x, y, z)"
  shows "\<exists>w'. onTick b w = Inr w'
     \<and> damage (emitter w') = damage (emitter w)
     \<and> (if getEntities w (dimension (blocks w b))
             \<lparr>location = (x + 1 / 2, y, z + 1 / 2), volume = (1 / 2, 1, 1 / 2)\<rparr> = []
         then \<not> triggered (emitter w')
              \<and> permutation (blocks w' b) (triggered_state w) = Some (SBool False)
              \<and> applied w' = applied w
         else triggered (emitter w')
              \<and> blocks w' = blocks w
              \<and> applied w' = applied w @ map (\<lambda>e. (e, damage (emitter w)))
                   (getEntities w (dimension (blocks w b))
                      \<lparr>location = (x + 1 / 2, y, z + 1 / 2), volume = (1 / 2, 1, 1 / 2)\<rparr>))"
  using assms
  by (simp add: onTick_def Let_def damage_each_eq setPermutation_def withState_def
      triggered_state_def cell_query_def)

theorem onTick_while_triggered_witness:
  "(\<exists>w'. onTick 1 (placed_world around_block_1) = Inr w'
      \<and> triggered (emitter w')
      \<and> blocks w' = placed_block
      \<and> applied w' = [(4, Fin 3), (9, Fin 3)])
   \<and> (\<exists>w'. onTick 0 (placed_world around_block_1) = Inr w'
      \<and> \<not> triggered (emitter w')
      \<and> permutation (blocks w' 0) ''dm:damage_on_step_triggered'' = Some (SBool False)
      \<and> applied w' = [])"
proof -
  note f = placed_world_fields [of around_block_1]
  have one: "\<exists>w'. onTick 1 (placed_world around_block_1) = Inr w'
      \<and> triggered (emitter w')
      \<and> blocks w' = placed_block
      \<and> applied w' = [(4, Fin 3), (9, Fin 3)]"
    using onTick_while_triggered [OF f(1) f(2) f(7)]
    unfolding query_block_1 found_around_block_1
    by (auto simp: f)
  have zero: "\<exists>w'. onTick 0 (placed_world around_block_1) = Inr w'
      \<and> \<not> triggered (emitter w')
      \<and> permutation (blocks w' 0) ''dm:damage_on_step_triggered'' = Some (SBool False)
      \<and> applied w' = []"
    using onTick_while_triggered [OF f(1) f(2) f(6)]
    unfolding query_block_0 found_around_block_0
    by (auto simp: f)
  from one zero show ?thesis by (rule conjI)
qed

text \<open>
  C7 as stated fails on the region: for the block at \<open>(0, 64, 0)\<close> the handler's query
  starts at \<open>(1/2, 64, 1/2)\<close> with volume 0.5 x 1 x 0.5. With a host that answers by
  position, an entity standing at \<open>(1/4, 64, 1/4)\<close> is in the block's 1x1x1 cell and is
  not found: the tick clears the flag and applies no damage.
\<close>

theorem tick_misses_entity_in_unit_cell:
  "getEntities (placed_world [(4, 0, (1 / 4, 64, 1 / 4))])
      (dimension (blocks (placed_world [(4, 0, (1 / 4, 64, 1 / 4))]) 0))
      (spec_unit_cell (blocks (placed_world [(4, 0, (1 / 4, 64, 1 / 4))]) 0)) = [4]
   \<and> cell_query (blocks (placed_world [(4, 0, (1 / 4, 64, 1 / 4))]) 0)
       = \<lparr>location = (1 / 2, 64, 1 / 2), volume = (1 / 2, 1, 1 / 2)\<rparr>
   \<and> init (emitter (placed_world [(4, 0, (1 / 4, 64, 1 / 4))])) = True
   \<and> triggered (emitter (placed_world [(4, 0, (1 / 4, 64, 1 / 4))])) = True
   \<and> triggered (emitter (deliver (Tick 0) (placed_world [(4, 0, (1 / 4, 64, 1 / 4))]))) = False
   \<and> applied (deliver (Tick 0) (placed_world [(4, 0, (1 / 4, 64, 1 / 4))])) = []"
  by (simp add: deliver_def onTick_def Let_def setPermutation_def withState_def
      triggered_state_def placed_world_def placed_block_def initial_emitter_def cell_query_def
      spec_unit_cell_def box_host_def in_box_def damage_each_eq)



text \<open>
  C10. For every sequence of tick callbacks delivered while the triggered flag is false,
  the flag never becomes true, in memory or in any block's persisted state, and no damage
  is applied; a second tick changes nothing the first has not changed. (No entity needs to
  be absent for this: an idle component does not scan.)
\<close>

theorem idle_ticks_change_nothing:
  assumes "\<not> triggered (emitter w)"
  shows "\<not> triggered (emitter (fold (\<lambda>b. deliver (Tick b)) bs w))
     \<and> blocks (fold (\<lambda>b. deliver (Tick b)) bs w) = blocks w
     \<and> applied (fold (\<lambda>b. deliver (Tick b)) bs w) = applied w
     \<and> deliver (Tick b) (deliver (Tick b) w) = deliver (Tick b) w"
proof -
  have "\<not> triggered (emitter (fold (\<lambda>b. deliver (Tick b)) bs w))
     \<and> blocks (fold (\<lambda>b. deliver (Tick b)) bs w) = blocks w
     \<and> applied (fold (\<lambda>b. deliver (Tick b)) bs w) = applied w"
    using assms
  proof (induction bs arbitrary: w)
    case Nil
    then show ?case by simp
  next
    case (Cons a bs)
    note step = tick_idle [OF Cons.prems, of a]
    from Cons.IH [OF step(1)] step(2,3) show ?case by simp
  qed
  with tick_idempotent [OF assms] show ?thesis by simp
qed

theorem idle_ticks_change_nothing_witness:
  "\<not> triggered (emitter (example_world [''dm:damage_on_step_damage:3''] [] []))
   \<and> \<not> triggered (emitter (fold (\<lambda>b. deliver (Tick b)) [0, 0, 0]
          (example_world [''dm:damage_on_step_damage:3''] [] [])))
   \<and> permutation (blocks (fold (\<lambda>b. deliver (Tick b)) [0, 0, 0]
          (example_world [''dm:damage_on_step_damage:3''] [] [])) 0)
        ''dm:damage_on_step_triggered'' = Some (SBool False)
   \<and> applied (fold (\<lambda>b. deliver (Tick b)) [0, 0, 0]
          (example_world [''dm:damage_on_step_damage:3''] [] [])) = []"
proof -
  have t: "\<not> triggered (emitter (example_world [''dm:damage_on_step_damage:3''] [] []))"
    by (simp add: example_world_def initial_emitter_def)
  have start: "permutation (blocks (example_world [''dm:damage_on_step_damage:3''] [] []) 0)
      ''dm:damage_on_step_triggered'' = Some (SBool False)"
    "applied (example_world [''dm:damage_on_step_damage:3''] [] []) = []"
    by (simp_all add: example_world_def example_block_def)
  note run = idle_ticks_change_nothing [OF t, of "[0, 0, 0]" 0]
  from run have "\<not> triggered (emitter (fold (\<lambda>b. deliver (Tick b)) [0, 0, 0]
          (example_world [''dm:damage_on_step_damage:3''] [] [])))"
    and "blocks (fold (\<lambda>b. deliver (Tick b)) [0, 0, 0]
          (example_world [''dm:damage_on_step_damage:3''] [] []))
        = blocks (example_world [''dm:damage_on_step_damage:3''] [] [])"
    and "applied (fold (\<lambda>b. deliver (Tick b)) [0, 0, 0]
          (example_world [''dm:damage_on_step_damage:3''] [] []))
        = applied (example_world [''dm:damage_on_step_damage:3''] [] [])"
    by blast+
  with t start show ?thesis
    by simp
qed

text \<open>
  C9, as the code has it. Construction fails with the configuration error if and only if
  the identifier passed is absent (\<open>undefined\<close> or \<open>null\<close>); every string, the empty
  one too, is accepted and becomes the identifier.
\<close>

theorem constructor_fails_iff_absent:
  "(DamageEmitterComponent_constructor cname i
      = Inl (Error (''The identifier property must be defined by '' @ cname @ ''.'')))
     = (i = Undefined \<or> i = Null)
   \<and> (DamageEmitterComponent_constructor cname i
        = Inr \<lparr>ident = i, triggered = False, damage = Fin 1, continuous = False\<rparr>)
     = (\<exists>s. i = Str s)"
  by (cases i) (simp_all add: DamageEmitterComponent_constructor_def)

theorem constructor_fails_iff_absent_witness:
  "DamageEmitterComponent_constructor ''DamageOnStepComponent'' Undefined
     = Inl (Error ''The identifier property must be defined by DamageOnStepComponent.'')
   \<and> DamageEmitterComponent_constructor ''DamageOnStepComponent'' (Str ''dm:damage_on_step'')
     = Inr \<lparr>ident = Str ''dm:damage_on_step'', triggered = False, damage = Fin 1,
            continuous = False\<rparr>"
  using constructor_fails_iff_absent [of "''DamageOnStepComponent''" Undefined]
    constructor_fails_iff_absent [of "''DamageOnStepComponent''" "Str ''dm:damage_on_step''"]
  by simp

text \<open>
  C9 as stated fails at the empty identifier: the constructor accepts it.
\<close>

theorem empty_identifier_accepted:
  "DamageEmitterComponent_constructor ''DamageOnStepComponent'' (Str [])
     = Inr \<lparr>ident = Str [], triggered = False, damage = Fin 1, continuous = False\<rparr>"
  by (simp add: DamageEmitterComponent_constructor_def)

text \<open>
  C1. The lookup is claimed to return "not found" without a fault when no tag matches.
  On the tag list of a block that carries the continuous tag only, \<open>getParamValue\<close> for
  the damage tag throws a \<open>TypeError\<close>.
\<close>

theorem getParamValue_no_match_throws:
  "getParamValue ''dm:damage_on_step_damage'' [''dm:damage_on_step_continuous''] = Inl TypeError"
  by (simp add: getParamValue_def)

text \<open>
  C2. The first tick is claimed to fall back to the default damage when the damage tag is
  absent or its value is no number, and never to propagate the fault. With the tag absent
  the handler throws the \<open>TypeError\<close> of the lookup and the component stays
  uninitialised; with the value \<open>two\<close> the damage becomes \<open>NaN\<close>.
\<close>

theorem first_tick_no_fallback:
  "onTick 0 (example_world [''dm:damage_on_step_continuous''] [] []) = Inl TypeError
   \<and> init (emitter (deliver (Tick 0) (example_world [''dm:damage_on_step_continuous''] [] [])))
       = False
   \<and> init (emitter (deliver (Tick 0) (example_world [''dm:damage_on_step_damage:two''] [] [])))
       = True
   \<and> damage (emitter (deliver (Tick 0) (example_world [''dm:damage_on_step_damage:two''] [] [])))
       = NaN"
proof -
  have absent: "getParamValue ''dm:damage_on_step_damage'' [''dm:damage_on_step_continuous'']
      = Inl TypeError"
    by (simp add: getParamValue_def)
  have found: "getParamValue ''dm:damage_on_step_damage'' [''dm:damage_on_step_damage:two'']
      = Inr ''two''"
    using getParamValue_first_match [of "[]" "''dm:damage_on_step_damage''" "''two''" "[]"]
    by simp
  have nan: "parseInt ''two'' = NaN"
    by (simp add: parseInt_def isWhiteSpace_def radixDigit_def digitValue_def)
  show ?thesis
    using absent found nan
    by (simp add: deliver_def onTick_def Let_def example_world_def example_block_def
        initial_emitter_def parameterTags_def)
qed

text \<open>
  C5, as the code has it. For every non-negative input written in the damage tag as a
  decimal numeral with at least one digit before an optional point and fraction (digits
  \<open>ds\<close>, then digits \<open>fs\<close>), whose integer part is below \<open>2^53\<close>, the damage tag
  being the first tag of the block that contains the tag's name, the damage in effect after
  initialisation is \<open>max(1, floor(input))\<close>; for the input \<open>0\<close> it is 1.
\<close>

theorem damage_is_max_1_floor:
  assumes "\<not> init (emitter w)"
    and "tags (blocks w b)
      = pre @ (damage_tag (parameterTags (emitter w)) @ '':'' @ decimal_text ds fs) # post"
    and "\<forall>t\<in>set pre. \<not> String_includes t (damage_tag (parameterTags (emitter w)))"
    and "ds \<noteq> []" and "list_all isDecimalDigit ds" and "list_all isDecimalDigit fs"
    and "decimal_nat ds < 2 ^ 53"
  shows "\<exists>w'. onTick b w = Inr w'
     \<and> damage (emitter w') = Fin (max 1 \<lfloor>decimal_value ds fs\<rfloor>)"
proof -
  have "getParamValue (damage_tag (parameterTags (emitter w))) (tags (blocks w b))
      = Inr (decimal_text ds fs)"
    unfolding assms(2) using assms(3) by (rule getParamValue_first_match)
  moreover have "parseInt (decimal_text ds fs) = Fin (int (decimal_nat ds))"
    using parseInt_decimal_text [OF assms(4,5,6)] assms(7)
    by (simp add: round_double_def)
  moreover have "\<lfloor>decimal_value ds fs\<rfloor> = int (decimal_nat ds)"
    using assms(6) by (rule floor_decimal_value)
  ultimately show ?thesis
    using assms(1) by (simp add: onTick_def Let_def)
qed

theorem damage_is_max_1_floor_witness:
  "damage (emitter (deliver (Tick 0)
      (example_world [''dm:damage_on_step_continuous'', ''dm:damage_on_step_damage:0''] [] [])))
     = Fin 1
   \<and> damage (emitter (deliver (Tick 0)
      (example_world [''dm:damage_on_step_damage:2.75''] [] []))) = Fin 2"
proof -
  let ?w0 = "example_world [''dm:damage_on_step_continuous'', ''dm:damage_on_step_damage:0''] [] []"
  let ?w2 = "example_world [''dm:damage_on_step_damage:2.75''] [] []"
  have key: "damage_tag (parameterTags (emitter ?w0)) = ''dm:damage_on_step_damage''"
    "damage_tag (parameterTags (emitter ?w2)) = ''dm:damage_on_step_damage''"
    by (simp_all add: example_world_def initial_emitter_def parameterTags_def)
  have "\<exists>w'. onTick 0 ?w0 = Inr w' \<and> damage (emitter w') = Fin (max 1 \<lfloor>decimal_value ''0'' []\<rfloor>)"
  proof (rule damage_is_max_1_floor [where pre = "[''dm:damage_on_step_continuous'']" and post = "[]"])
    show "\<not> init (emitter ?w0)"
      by (simp add: example_world_def initial_emitter_def)
    show "tags (blocks ?w0 0) = [''dm:damage_on_step_continuous'']
        @ (damage_tag (parameterTags (emitter ?w0)) @ '':'' @ decimal_text ''0'' []) # []"
      unfolding key by (simp add: example_world_def example_block_def decimal_text_def)
    show "\<forall>t\<in>set [''dm:damage_on_step_continuous''].
        \<not> String_includes t (damage_tag (parameterTags (emitter ?w0)))"
      unfolding key by simp
    show "''0'' \<noteq> []" by simp
    show "list_all isDecimalDigit ''0''" by (simp add: isDecimalDigit_def)
    show "list_all isDecimalDigit []" by simp
    show "decimal_nat ''0'' < 2 ^ 53" by (simp add: decimal_nat_def)
  qed
  moreover have "\<lfloor>decimal_value ''0'' []\<rfloor> = 0"
    by (simp add: decimal_value_def decimal_nat_def)
  moreover
  have "\<exists>w'. onTick 0 ?w2 = Inr w' \<and> damage (emitter w') = Fin (max 1 \<lfloor>decimal_value ''2'' ''75''\<rfloor>)"
  proof (rule damage_is_max_1_floor [where pre = "[]" and post = "[]"])
    show "\<not> init (emitter ?w2)"
      by (simp add: example_world_def initial_emitter_def)
    show "tags (blocks ?w2 0)
        = [] @ (damage_tag (parameterTags (emitter ?w2)) @ '':'' @ decimal_text ''2'' ''75'') # []"
      unfolding key by (simp add: example_world_def example_block_def decimal_text_def)
    show "\<forall>t\<in>set []. \<not> String_includes t (damage_tag (parameterTags (emitter ?w2)))"
      by simp
    show "''2'' \<noteq> []" by simp
    show "list_all isDecimalDigit ''2''" by (simp add: isDecimalDigit_def)
    show "list_all isDecimalDigit ''75''" by (simp add: isDecimalDigit_def)
    show "decimal_nat ''2'' < 2 ^ 53" by (simp add: decimal_nat_def)
  qed
  moreover have "\<lfloor>decimal_value ''2'' ''75''\<rfloor> = 2"
    using floor_decimal_value [of "''75''" "''2''"]
    by (simp add: decimal_nat_def isDecimalDigit_def)
  ultimately show ?thesis
    by (auto simp: deliver_def)
qed

text \<open>
  C5 as stated fails for numeric inputs in other notations and sizes. \<open>parseInt\<close> reads
  the digits before the first other character: \<open>.5\<close> has none and gives \<open>NaN\<close>, of
  \<open>1e3\<close> only the 1 is read. The integer \<open>2^53 + 1\<close> is rounded to the double
  \<open>2^53\<close>. And the input 2 is not read at all when an earlier tag contains the damage
  tag's name: that tag is parsed instead, and gives \<open>NaN\<close>.
\<close>

theorem damage_not_floor_of_other_numerals:
  "decimal_text [] ''5'' = ''.5''
   \<and> max 1 \<lfloor>decimal_value [] ''5''\<rfloor> = 1
   \<and> init (emitter (deliver (Tick 0) (example_world [''dm:damage_on_step_damage:.5''] [] [])))
       = True
   \<and> damage (emitter (deliver (Tick 0) (example_world [''dm:damage_on_step_damage:.5''] [] [])))
       = NaN
   \<and> exponent_text ''1'' [] ''3'' = ''1e3''
   \<and> max 1 \<lfloor>exponent_value ''1'' [] ''3''\<rfloor> = 1000
   \<and> init (emitter (deliver (Tick 0) (example_world [''dm:damage_on_step_damage:1e3''] [] [])))
       = True
   \<and> damage (emitter (deliver (Tick 0) (example_world [''dm:damage_on_step_damage:1e3''] [] [])))
       = Fin 1
   \<and> decimal_text ''9007199254740993'' [] = ''9007199254740993''
   \<and> max 1 \<lfloor>decimal_value ''9007199254740993'' []\<rfloor> = 9007199254740993
   \<and> damage (emitter (deliver (Tick 0)
         (example_world [''dm:damage_on_step_damage:9007199254740993''] [] [])))
       = Fin 9007199254740992
   \<and> decimal_text ''2'' [] = ''2''
   \<and> max 1 \<lfloor>decimal_value ''2'' []\<rfloor> = 2
   \<and> init (emitter (deliver (Tick 0)
         (example_world [''dm:damage_on_step_damage_bonus:7'', ''dm:damage_on_step_damage:2''] [] [])))
       = True
   \<and> damage (emitter (deliver (Tick 0)
         (example_world [''dm:damage_on_step_damage_bonus:7'', ''dm:damage_on_step_damage:2''] [] [])))
       = NaN"
proof -
  have nums: "decimal_text [] ''5'' = ''.5''" "max 1 \<lfloor>decimal_value [] ''5''\<rfloor> = 1"
    "exponent_text ''1'' [] ''3'' = ''1e3''" "max 1 \<lfloor>exponent_value ''1'' [] ''3''\<rfloor> = 1000"
    "decimal_text ''9007199254740993'' [] = ''9007199254740993''"
    "max 1 \<lfloor>decimal_value ''9007199254740993'' []\<rfloor> = 9007199254740993"
    "decimal_text ''2'' [] = ''2''" "max 1 \<lfloor>decimal_value ''2'' []\<rfloor> = 2"
    by (simp_all add: decimal_text_def exponent_text_def decimal_value_def exponent_value_def
        decimal_nat_def)
  have found: "getParamValue ''dm:damage_on_step_damage'' [''dm:damage_on_step_damage:.5'']
      = Inr ''.5''"
    "getParamValue ''dm:damage_on_step_damage'' [''dm:damage_on_step_damage:1e3''] = Inr ''1e3''"
    "getParamValue ''dm:damage_on_step_damage'' [''dm:damage_on_step_damage:9007199254740993'']
      = Inr ''9007199254740993''"
    using getParamValue_first_match [of "[]" "''dm:damage_on_step_damage''" "''.5''" "[]"]
      getParamValue_first_match [of "[]" "''dm:damage_on_step_damage''" "''1e3''" "[]"]
      getParamValue_first_match [of "[]" "''dm:damage_on_step_damage''" "''9007199254740993''" "[]"]
    by simp_all
  have other: "getParamValue ''dm:damage_on_step_damage''
      [''dm:damage_on_step_damage_bonus:7'', ''dm:damage_on_step_damage:2'']
      = Inr ''dm:damage_on_step_damage_bonus:7''"
    by (simp add: getParamValue_def)
  have parsed: "parseInt ''.5'' = NaN" "parseInt ''1e3'' = Fin 1"
    "parseInt ''dm:damage_on_step_damage_bonus:7'' = NaN"
    by (simp_all add: parseInt_def isWhiteSpace_def radixDigit_def digitValue_def mathInt_def
        round_double_def)
  have "mathInt 10 ''9007199254740993'' = 9007199254740993"
    by (simp add: mathInt_def digitValue_def)
  moreover have "round_double 9007199254740993 = Fin 9007199254740992"
    by (simp add: round_double_def Let_def bit_length.simps)
  ultimately have big: "parseInt ''9007199254740993'' = Fin 9007199254740992"
    by (simp add: parseInt_def isWhiteSpace_def radixDigit_def digitValue_def)
  have ticks:
    "init (emitter (deliver (Tick 0) (example_world [''dm:damage_on_step_damage:.5''] [] [])))
       = True"
    "damage (emitter (deliver (Tick 0) (example_world [''dm:damage_on_step_damage:.5''] [] [])))
       = NaN"
    "init (emitter (deliver (Tick 0) (example_world [''dm:damage_on_step_damage:1e3''] [] [])))
       = True"
    "damage (emitter (deliver (Tick 0) (example_world [''dm:damage_on_step_damage:1e3''] [] [])))
       = Fin 1"
    "damage (emitter (deliver (Tick 0)
         (example_world [''dm:damage_on_step_damage:9007199254740993''] [] [])))
       = Fin 9007199254740992"
    "init (emitter (deliver (Tick 0)
         (example_world [''dm:damage_on_step_damage_bonus:7'', ''dm:damage_on_step_damage:2''] [] [])))
       = True"
    "damage (emitter (deliver (Tick 0)
         (example_world [''dm:damage_on_step_damage_bonus:7'', ''dm:damage_on_step_damage:2''] [] [])))
       = NaN"
    using found other parsed big
    by (simp_all add: deliver_def onTick_def Let_def example_world_def example_block_def
        initial_emitter_def parameterTags_def)
  from nums ticks show ?thesis
    by simp
qed

text \<open>
  C4, as the code has it. On a tick handled while the initialisation flag is false, for a
  block whose first tag containing the damage tag's name is the damage tag with value
  \<open>v\<close>, the component takes \<open>max(1, floor(parseInt(v)))\<close> as its damage, takes the
  presence of the continuous tag as \<open>continuous\<close> and sets the initialisation flag;
  after that no sequence of callbacks, for whichever blocks, changes the damage,
  \<open>continuous\<close> or the flag again. The triggered flag in memory is not reset by this
  tick: it is afterwards what it was before, and a persisted state that was false before
  is false afterwards.
\<close>

theorem first_tick_initialises:
  assumes "\<not> init (emitter w)"
    and "tags (blocks w b) = pre @ (damage_tag (parameterTags (emitter w)) @ '':'' @ v) # post"
    and "\<forall>t\<in>set pre. \<not> String_includes t (damage_tag (parameterTags (emitter w)))"
  shows "\<exists>w'. onTick b w = Inr w'
     \<and> init (emitter w')
     \<and> damage (emitter w') = Math_max (Fin 1) (Math_floor (parseInt v))
     \<and> continuous (emitter w')
         = (continuous_tag (parameterTags (emitter w)) \<in> set (tags (blocks w b)))
     \<and> triggered (emitter w') = triggered (emitter w)
     \<and> (permutation (blocks w b) (triggered_state w) = Some (SBool False)
          \<longrightarrow> permutation (blocks w' b) (triggered_state w) = Some (SBool False))
     \<and> (\<forall>evs. init (emitter (fold deliver evs w'))
           \<and> damage (emitter (fold deliver evs w')) = damage (emitter w')
           \<and> continuous (emitter (fold deliver evs w')) = continuous (emitter w'))"
proof -
  define w' where "w' = w\<lparr>emitter := (emitter w)
      \<lparr>damage := Math_max (Fin 1) (Math_floor (parseInt v)),
       continuous := hasParam (continuous_tag (parameterTags (emitter w))) (tags (blocks w b)),
       init := True\<rparr>\<rparr>"
  have "getParamValue (damage_tag (parameterTags (emitter w))) (tags (blocks w b)) = Inr v"
    unfolding assms(2) using assms(3) by (rule getParamValue_first_match)
  then have tick: "onTick b w = Inr w'"
    using assms(1) by (simp add: onTick_def Let_def w'_def)
  have "init (emitter w')"
    by (simp add: w'_def)
  then have later: "\<forall>evs. init (emitter (fold deliver evs w'))
      \<and> damage (emitter (fold deliver evs w')) = damage (emitter w')
      \<and> continuous (emitter (fold deliver evs w')) = continuous (emitter w')"
    using initialised_stays_fold by blast
  have now: "init (emitter w')"
    "damage (emitter w') = Math_max (Fin 1) (Math_floor (parseInt v))"
    "continuous (emitter w')
       = (continuous_tag (parameterTags (emitter w)) \<in> set (tags (blocks w b)))"
    "triggered (emitter w') = triggered (emitter w)"
    "blocks w' = blocks w"
    by (simp_all add: w'_def hasParam_def)
  from tick now later show ?thesis
    by (intro exI [of _ w']) simp
qed

theorem first_tick_initialises_witness:
  "init (emitter (deliver (Tick 0) (onStepOn 0
      (example_world [''dm:damage_on_step_continuous'', ''dm:damage_on_step_damage:3''] [4] []))))
   \<and> damage (emitter (deliver (Tick 0) (onStepOn 0
      (example_world [''dm:damage_on_step_continuous'', ''dm:damage_on_step_damage:3''] [4] []))))
     = Fin 3
   \<and> continuous (emitter (deliver (Tick 0) (onStepOn 0
      (example_world [''dm:damage_on_step_continuous'', ''dm:damage_on_step_damage:3''] [4] []))))
   \<and> triggered (emitter (deliver (Tick 0) (onStepOn 0
      (example_world [''dm:damage_on_step_continuous'', ''dm:damage_on_step_damage:3''] [4] []))))
   \<and> init (emitter (fold deliver [Tick 0, StepOff 1, Tick 1, StepOn 1] (deliver (Tick 0) (onStepOn 0
      (example_world [''dm:damage_on_step_continuous'', ''dm:damage_on_step_damage:3''] [4] [])))))
   \<and> damage (emitter (fold deliver [Tick 0, StepOff 1, Tick 1, StepOn 1] (deliver (Tick 0) (onStepOn 0
      (example_world [''dm:damage_on_step_continuous'', ''dm:damage_on_step_damage:3''] [4] [])))))
     = Fin 3
   \<and> \<not> triggered (emitter (deliver (Tick 0)
      (example_world [''dm:damage_on_step_continuous'', ''dm:damage_on_step_damage:3''] [] [])))
   \<and> permutation (blocks (deliver (Tick 0)
      (example_world [''dm:damage_on_step_continuous'', ''dm:damage_on_step_damage:3''] [] [])) 0)
       ''dm:damage_on_step_triggered'' = Some (SBool False)"
proof -
  define W where "W = onStepOn 0
      (example_world [''dm:damage_on_step_continuous'', ''dm:damage_on_step_damage:3''] [4] [])"
  have key: "damage_tag (parameterTags (emitter W)) = ''dm:damage_on_step_damage''"
    and cont: "continuous_tag (parameterTags (emitter W)) = ''dm:damage_on_step_continuous''"
    and ts: "tags (blocks W 0) = [''dm:damage_on_step_continuous'', ''dm:damage_on_step_damage:3'']"
    and trig: "triggered (emitter W)"
    and uninit: "\<not> init (emitter W)"
    by (simp_all add: W_def onStepOn_def setPermutation_def Let_def example_world_def
        example_block_def initial_emitter_def parameterTags_def)
  have "\<exists>w'. onTick 0 W = Inr w'
     \<and> init (emitter w')
     \<and> damage (emitter w') = Math_max (Fin 1) (Math_floor (parseInt ''3''))
     \<and> continuous (emitter w')
         = (continuous_tag (parameterTags (emitter W)) \<in> set (tags (blocks W 0)))
     \<and> triggered (emitter w') = triggered (emitter W)
     \<and> (permutation (blocks W 0) (triggered_state W) = Some (SBool False)
          \<longrightarrow> permutation (blocks w' 0) (triggered_state W) = Some (SBool False))
     \<and> (\<forall>evs. init (emitter (fold deliver evs w'))
           \<and> damage (emitter (fold deliver evs w')) = damage (emitter w')
           \<and> continuous (emitter (fold deliver evs w')) = continuous (emitter w'))"
  proof (rule first_tick_initialises [where pre = "[''dm:damage_on_step_continuous'']" and post = "[]"])
    show "\<not> init (emitter W)" by (rule uninit)
    show "tags (blocks W 0) = [''dm:damage_on_step_continuous'']
        @ (damage_tag (parameterTags (emitter W)) @ '':'' @ ''3'') # []"
      unfolding key ts by simp
    show "\<forall>t\<in>set [''dm:damage_on_step_continuous''].
        \<not> String_includes t (damage_tag (parameterTags (emitter W)))"
      unfolding key by simp
  qed
  then obtain w' where tick: "onTick 0 W = Inr w'"
    and now: "init (emitter w')" "damage (emitter w') = Fin 3" "continuous (emitter w')"
      "triggered (emitter w')"
    and later: "\<forall>evs. init (emitter (fold deliver evs w'))
           \<and> damage (emitter (fold deliver evs w')) = damage (emitter w')"
    unfolding key cont ts parseInt_3 using trig by auto
  from tick have d: "deliver (Tick 0) W = w'"
    by (simp add: deliver_def)
  from later have "init (emitter (fold deliver [Tick 0, StepOff 1, Tick 1, StepOn 1] w'))
      \<and> damage (emitter (fold deliver [Tick 0, StepOff 1, Tick 1, StepOn 1] w')) = damage (emitter w')"
    by (rule spec)
  with now have stepped: "init (emitter (deliver (Tick 0) W))"
    "damage (emitter (deliver (Tick 0) W)) = Fin 3"
    "continuous (emitter (deliver (Tick 0) W))"
    "triggered (emitter (deliver (Tick 0) W))"
    "init (emitter (fold deliver [Tick 0, StepOff 1, Tick 1, StepOn 1] (deliver (Tick 0) W)))"
    "damage (emitter (fold deliver [Tick 0, StepOff 1, Tick 1, StepOn 1] (deliver (Tick 0) W)))
       = Fin 3"
    unfolding d by simp_all
  define V where "V
    = example_world [''dm:damage_on_step_continuous'', ''dm:damage_on_step_damage:3''] [] []"
  have vkey: "damage_tag (parameterTags (emitter V)) = ''dm:damage_on_step_damage''"
    and vts: "tags (blocks V 0) = [''dm:damage_on_step_continuous'', ''dm:damage_on_step_damage:3'']"
    and vstate: "triggered_state V = ''dm:damage_on_step_triggered''"
    and vtrig: "\<not> triggered (emitter V)"
    and vuninit: "\<not> init (emitter V)"
    and vperm: "permutation (blocks V 0) ''dm:damage_on_step_triggered'' = Some (SBool False)"
    by (simp_all add: V_def example_world_def example_block_def initial_emitter_def
        parameterTags_def triggered_state_def)
  have "\<exists>v'. onTick 0 V = Inr v'
     \<and> init (emitter v')
     \<and> damage (emitter v') = Math_max (Fin 1) (Math_floor (parseInt ''3''))
     \<and> continuous (emitter v')
         = (continuous_tag (parameterTags (emitter V)) \<in> set (tags (blocks V 0)))
     \<and> triggered (emitter v') = triggered (emitter V)
     \<and> (permutation (blocks V 0) (triggered_state V) = Some (SBool False)
          \<longrightarrow> permutation (blocks v' 0) (triggered_state V) = Some (SBool False))
     \<and> (\<forall>evs. init (emitter (fold deliver evs v'))
           \<and> damage (emitter (fold deliver evs v')) = damage (emitter v')
           \<and> continuous (emitter (fold deliver evs v')) = continuous (emitter v'))"
  proof (rule first_tick_initialises [where pre = "[''dm:damage_on_step_continuous'']" and post = "[]"])
    show "\<not> init (emitter V)" by (rule vuninit)
    show "tags (blocks V 0) = [''dm:damage_on_step_continuous'']
        @ (damage_tag (parameterTags (emitter V)) @ '':'' @ ''3'') # []"
      unfolding vkey vts by simp
    show "\<forall>t\<in>set [''dm:damage_on_step_continuous''].
        \<not> String_includes t (damage_tag (parameterTags (emitter V)))"
      unfolding vkey by simp
  qed
  then obtain v' where vtick: "onTick 0 V = Inr v'"
    and vnow: "\<not> triggered (emitter v')"
      "permutation (blocks v' 0) ''dm:damage_on_step_triggered'' = Some (SBool False)"
    unfolding vstate using vtrig vperm by auto
  from vtick have "deliver (Tick 0) V = v'"
    by (simp add: deliver_def)
  with vnow have fresh: "\<not> triggered (emitter (deliver (Tick 0) V))"
    "permutation (blocks (deliver (Tick 0) V) 0) ''dm:damage_on_step_triggered''
       = Some (SBool False)"
    by simp_all
  from stepped fresh show ?thesis
    unfolding W_def V_def by simp
qed

text \<open>
  C4 as stated fails when an entity steps on the block before its first tick: the first
  tick initialises the component and leaves the triggered flag true, in memory and in the
  block's persisted state.
\<close>

theorem first_tick_after_step_on_stays_triggered:
  "init (emitter (onStepOn 0 (example_world [''dm:damage_on_step_damage:3''] [4] []))) = False
   \<and> init (emitter (deliver (Tick 0)
       (onStepOn 0 (example_world [''dm:damage_on_step_damage:3''] [4] [])))) = True
   \<and> triggered (emitter (deliver (Tick 0)
       (onStepOn 0 (example_world [''dm:damage_on_step_damage:3''] [4] [])))) = True
   \<and> permutation (blocks (deliver (Tick 0)
       (onStepOn 0 (example_world [''dm:damage_on_step_damage:3''] [4] []))) 0)
        ''dm:damage_on_step_triggered'' = Some (SBool True)"
proof -
  have "getParamValue ''dm:damage_on_step_damage'' [''dm:damage_on_step_damage:3''] = Inr ''3''"
    using getParamValue_first_match [of "[]" "''dm:damage_on_step_damage''" "''3''" "[]"]
    by simp
  then show ?thesis
    by (simp add: deliver_def onTick_def onStepOn_def Let_def setPermutation_def withState_def
        triggered_state_def example_world_def example_block_def initial_emitter_def
        parameterTags_def)
qed

text \<open>
  C3, as the code has it. The triggered flag, the damage and the initialisation flag are
  fields of the one component object registered for all blocks; what a block has of its
  own is its persisted state. A callback delivered for one block leaves every other
  block, its persisted state included, as it was.
\<close>

theorem callback_leaves_other_blocks:
  assumes "b' \<noteq> event_block ev"
  shows "blocks (deliver ev w) b' = blocks w b'"
proof (cases ev)
  case (StepOn b)
  with assms show ?thesis
    by (simp add: deliver_def onStepOn_def setPermutation_def Let_def)
next
  case (StepOff b)
  with assms show ?thesis
    by (simp add: deliver_def onStepOff_def setPermutation_def Let_def damage_each_eq)
next
  case (Tick b)
  with assms show ?thesis
    by (simp add: deliver_def onTick_def setPermutation_def Let_def damage_each_eq
        split: sum.splits)
qed

theorem callback_leaves_other_blocks_witness:
  "(1::nat) \<noteq> event_block (StepOn 0)
   \<and> permutation (blocks (deliver (StepOn 0) (running_world False [4] [])) 1)
        ''dm:damage_on_step_triggered'' = Some (SBool False)"
proof -
  have "(1::nat) \<noteq> event_block (StepOn 0)" by simp
  from this callback_leaves_other_blocks [OF this, of "running_world False [4] []"]
  show ?thesis
    by (simp add: running_world_def example_world_def example_block_def)
qed

text \<open>
  C3 as stated fails: with an entity standing on block 0 and nothing on block 1, the
  step-on callback for block 0 sets the flag that the tick of block 1 then reads and
  clears, and the next tick of block 0 applies no damage; without the tick of block 1 it
  damages the entity.
\<close>

theorem callbacks_of_other_block_interfere:
  "triggered (emitter (deliver (StepOn 0) (running_world False [4] []))) = True
   \<and> triggered (emitter (deliver (Tick 1) (deliver (StepOn 0) (running_world False [4] []))))
       = False
   \<and> applied (deliver (Tick 0) (deliver (StepOn 0) (running_world False [4] [])))
       = [(4, Fin 3)]
   \<and> applied (deliver (Tick 0) (deliver (Tick 1) (deliver (StepOn 0)
       (running_world False [4] [])))) = []"
  by (simp add: deliver_def onTick_def onStepOn_def Let_def setPermutation_def withState_def
      triggered_state_def running_world_def example_world_def example_block_def
      initial_emitter_def cell_query_def damage_each_eq)

end
